theory Spec2Isabelle
  imports Complex_Main
begin

section \<open>The IPE scoring engine of \<^verbatim>\<open>job_eval.py\<close>\<close>

text \<open>
  The scoring engine consists of the module-level lookup tables, the function
  \<^verbatim>\<open>calculate_ipe_score\<close> and the function \<^verbatim>\<open>score_to_level\<close>.

  Numbers. The ratings are annotated \<^verbatim>\<open>Dict[str, float]\<close> and the size factor
  \<^verbatim>\<open>float\<close>; the table keys are Python integers and half-step floats, which
  Python compares and hashes by numeric value (\<^verbatim>\<open>1 == 1.0\<close>). Ratings, size and
  keys are therefore rational numbers here, and a key is found when it is numerically
  equal. Every half step is a binary fraction, so it is the same number as a float and as
  a rational. The non-finite floats (NaN, infinities), on which \<^verbatim>\<open>int()\<close> raises,
  have no counterpart in this type. Point values are Python integers: \<open>int\<close>.
\<close>

subsection \<open>Python primitives\<close>

type_synonym ratings = "string \<rightharpoonup> rat"

text \<open>\<^verbatim>\<open>d.get(k, dflt)\<close> on the ratings dictionary.\<close>

definition ratings_get :: "ratings \<Rightarrow> string \<Rightarrow> rat \<Rightarrow> rat" where
  "ratings_get d k dflt = (case d k of None \<Rightarrow> dflt | Some v \<Rightarrow> v)"

text \<open>
  \<^verbatim>\<open>d.get(k, dflt)\<close> on a dictionary literal, kept as the list of its items. No literal
  of the module repeats a key, so the first item with the key is the only one.
\<close>

fun dict_get :: "('k \<times> 'v) list \<Rightarrow> 'k \<Rightarrow> 'v \<Rightarrow> 'v" where
  "dict_get [] k dflt = dflt"
| "dict_get ((k', v) # d) k dflt = (if k = k' then v else dict_get d k dflt)"

text \<open>\<^verbatim>\<open>int(x)\<close> on a number: truncation towards zero.\<close>

definition py_int :: "rat \<Rightarrow> int" where
  "py_int x = (if 0 \<le> x then \<lfloor>x\<rfloor> else \<lceil>x\<rceil>)"

subsection \<open>Lookup tables\<close>

definition IMPACT_CONTRIBUTION_TABLE :: "(rat \<times> (rat \<times> rat) list) list" where
  "IMPACT_CONTRIBUTION_TABLE = [
    (1, [(1, 1), (3/2, 3/2), (2, 2), (5/2, 5/2), (3, 3), (7/2, 7/2), (4, 4), (9/2, 9/2), (5, 5)]),
    (3/2, [(1, 5/2), (2, 3), (5/2, 7/2), (3, 4), (7/2, 9/2), (4, 5), (9/2, 11/2), (5, 13/2)]),
    (2, [(1, 4), (3/2, 9/2), (2, 5), (5/2, 11/2), (3, 6), (7/2, 13/2), (4, 7), (9/2, 15/2), (5, 8)]),
    (5/2, [(1, 11/2), (3/2, 6), (2, 13/2), (5/2, 7), (3, 15/2), (7/2, 8), (4, 17/2), (9/2, 9), (5, 19/2)]),
    (3, [(1, 7), (3/2, 15/2), (2, 8), (5/2, 17/2), (3, 9), (7/2, 19/2), (4, 10), (9/2, 21/2), (5, 11)]),
    (7/2, [(1, 17/2), (3/2, 9), (2, 19/2), (5/2, 10), (3, 21/2), (7/2, 11), (4, 23/2), (9/2, 12), (5, 25/2)]),
    (4, [(1, 10), (3/2, 21/2), (2, 11), (5/2, 23/2), (3, 12), (7/2, 25/2), (4, 13), (9/2, 27/2), (5, 14)]),
    (9/2, [(1, 23/2), (3/2, 12), (2, 25/2), (5/2, 13), (3, 27/2), (7/2, 14), (4, 29/2), (9/2, 15), (5, 31/2)]),
    (5, [(1, 13), (3/2, 27/2), (2, 14), (5/2, 29/2), (3, 15), (7/2, 31/2), (4, 16), (9/2, 33/2), (5, 17)])]"

definition IMPACT_SIZE_TABLE :: "(rat \<times> (rat \<times> int) list) list" where
  "IMPACT_SIZE_TABLE = [
    (1, [(1, 5), (2, 5), (3, 5), (4, 5), (5, 5), (6, 5), (7, 5), (8, 5), (9, 5), (10, 5), (11, 5), (12, 5), (13, 5)]),
    (3/2, [(1, 10), (2, 10), (3, 10), (4, 10), (5, 10), (6, 10), (7, 10), (8, 10), (9, 10), (10, 10), (11, 10), (12, 10), (13, 10)]),
    (2, [(1, 15), (2, 15), (3, 15), (4, 15), (5, 15), (6, 15), (7, 15), (8, 15), (9, 15), (10, 15), (11, 15), (12, 15), (13, 15)]),
    (5/2, [(1, 20), (2, 20), (3, 20), (4, 20), (5, 20), (6, 20), (7, 20), (8, 20), (9, 20), (10, 20), (11, 20), (12, 20), (13, 20)]),
    (3, [(1, 25), (2, 25), (3, 25), (4, 25), (5, 25), (6, 25), (7, 25), (8, 25), (9, 25), (10, 25), (11, 25), (12, 25), (13, 25)]),
    (7/2, [(1, 31), (2, 32), (3, 32), (4, 33), (5, 33), (6, 34), (7, 34), (8, 35), (9, 35), (10, 36), (11, 36), (12, 37), (13, 37)]),
    (4, [(1, 37), (2, 38), (3, 39), (4, 40), (5, 41), (6, 42), (7, 43), (8, 44), (9, 45), (10, 46), (11, 47), (12, 48), (13, 49)]),
    (9/2, [(1, 41), (2, 43), (3, 44), (4, 46), (5, 47), (6, 49), (7, 50), (8, 52), (9, 53), (10, 55), (11, 56), (12, 58), (13, 59)]),
    (5, [(1, 44), (2, 46), (3, 48), (4, 50), (5, 52), (6, 54), (7, 56), (8, 58), (9, 60), (10, 62), (11, 64), (12, 66), (13, 68)]),
    (11/2, [(1, 50), (2, 53), (3, 55), (4, 58), (5, 60), (6, 63), (7, 65), (8, 68), (9, 70), (10, 73), (11, 75), (12, 78), (13, 80)]),
    (6, [(1, 56), (2, 59), (3, 62), (4, 65), (5, 68), (6, 71), (7, 74), (8, 77), (9, 80), (10, 83), (11, 86), (12, 89), (13, 92)]),
    (13/2, [(1, 60), (2, 64), (3, 67), (4, 71), (5, 74), (6, 78), (7, 81), (8, 85), (9, 88), (10, 92), (11, 95), (12, 99), (13, 102)]),
    (7, [(1, 63), (2, 67), (3, 71), (4, 75), (5, 79), (6, 83), (7, 87), (8, 91), (9, 95), (10, 99), (11, 103), (12, 107), (13, 111)]),
    (15/2, [(1, 72), (2, 76), (3, 80), (4, 85), (5, 89), (6, 93), (7, 97), (8, 102), (9, 106), (10, 110), (11, 114), (12, 119), (13, 123)]),
    (8, [(1, 80), (2, 85), (3, 89), (4, 94), (5, 98), (6, 103), (7, 107), (8, 112), (9, 116), (10, 121), (11, 125), (12, 130), (13, 134)]),
    (17/2, [(1, 84), (2, 89), (3, 94), (4, 99), (5, 104), (6, 109), (7, 114), (8, 119), (9, 124), (10, 129), (11, 134), (12, 139), (13, 144)]),
    (9, [(1, 87), (2, 93), (3, 98), (4, 104), (5, 109), (6, 115), (7, 120), (8, 126), (9, 131), (10, 137), (11, 142), (12, 148), (13, 153)]),
    (19/2, [(1, 96), (2, 102), (3, 107), (4, 113), (5, 119), (6, 125), (7, 130), (8, 136), (9, 142), (10, 148), (11, 153), (12, 159), (13, 165)]),
    (10, [(1, 104), (2, 110), (3, 116), (4, 122), (5, 128), (6, 134), (7, 140), (8, 146), (9, 152), (10, 158), (11, 164), (12, 170), (13, 176)]),
    (21/2, [(1, 108), (2, 115), (3, 121), (4, 128), (5, 134), (6, 141), (7, 147), (8, 154), (9, 160), (10, 167), (11, 173), (12, 180), (13, 186)]),
    (11, [(1, 111), (2, 118), (3, 125), (4, 132), (5, 139), (6, 146), (7, 153), (8, 160), (9, 167), (10, 174), (11, 181), (12, 188), (13, 195)]),
    (23/2, [(1, 120), (2, 128), (3, 135), (4, 143), (5, 150), (6, 158), (7, 165), (8, 173), (9, 180), (10, 188), (11, 195), (12, 203), (13, 210)]),
    (12, [(1, 128), (2, 136), (3, 144), (4, 152), (5, 160), (6, 168), (7, 176), (8, 184), (9, 192), (10, 200), (11, 208), (12, 216), (13, 224)]),
    (25/2, [(1, 132), (2, 141), (3, 149), (4, 158), (5, 166), (6, 175), (7, 183), (8, 192), (9, 200), (10, 209), (11, 217), (12, 226), (13, 234)]),
    (13, [(1, 135), (2, 144), (3, 153), (4, 162), (5, 171), (6, 180), (7, 189), (8, 198), (9, 207), (10, 216), (11, 225), (12, 234), (13, 243)]),
    (27/2, [(1, 141), (2, 151), (3, 160), (4, 170), (5, 179), (6, 189), (7, 198), (8, 208), (9, 217), (10, 227), (11, 236), (12, 246), (13, 255)]),
    (14, [(1, 147), (2, 157), (3, 167), (4, 177), (5, 187), (6, 197), (7, 207), (8, 217), (9, 227), (10, 237), (11, 247), (12, 257), (13, 267)]),
    (29/2, [(1, 151), (2, 162), (3, 172), (4, 183), (5, 193), (6, 204), (7, 214), (8, 225), (9, 235), (10, 246), (11, 256), (12, 268), (13, 280)]),
    (15, [(1, 155), (2, 166), (3, 177), (4, 188), (5, 199), (6, 210), (7, 221), (8, 232), (9, 243), (10, 254), (11, 265), (12, 279), (13, 292)]),
    (31/2, [(1, 162), (2, 174), (3, 185), (4, 197), (5, 208), (6, 220), (7, 231), (8, 243), (9, 254), (10, 267), (11, 279), (12, 293), (13, 307)]),
    (16, [(1, 168), (2, 180), (3, 192), (4, 204), (5, 216), (6, 228), (7, 240), (8, 252), (9, 264), (10, 279), (11, 293), (12, 308), (13, 322)]),
    (33/2, [(1, 172), (2, 185), (3, 197), (4, 210), (5, 222), (6, 235), (7, 247), (8, 261), (9, 275), (10, 290), (11, 305), (12, 320), (13, 335)]),
    (17, [(1, 176), (2, 189), (3, 202), (4, 215), (5, 228), (6, 241), (7, 254), (8, 270), (9, 285), (10, 301), (11, 316), (12, 332), (13, 347)])]"

definition COMMUNICATION_FRAME_TABLE :: "(rat \<times> (rat \<times> int) list) list" where
  "COMMUNICATION_FRAME_TABLE = [
    (1, [(1, 10), (2, 18), (3, 25), (4, 30)]),
    (2, [(1, 22), (2, 33), (3, 35), (4, 45)]),
    (3, [(1, 33), (2, 40), (3, 50), (4, 55)]),
    (4, [(1, 45), (2, 55), (3, 65), (4, 75)]),
    (5, [(1, 60), (2, 70), (3, 80), (4, 95)])]"

definition INNOVATION_COMPLEXITY_TABLE :: "(rat \<times> (rat \<times> int) list) list" where
  "INNOVATION_COMPLEXITY_TABLE = [
    (1, [(1, 10), (2, 13), (3, 18), (4, 25)]),
    (2, [(1, 18), (2, 23), (3, 25), (4, 30)]),
    (3, [(1, 33), (2, 38), (3, 40), (4, 45)]),
    (4, [(1, 45), (2, 53), (3, 55), (4, 65)]),
    (5, [(1, 60), (2, 75), (3, 80), (4, 95)]),
    (6, [(1, 80), (2, 95), (3, 110), (4, 140)])]"

definition KNOWLEDGE_TEAMS_TABLE :: "(rat \<times> (rat \<times> int) list) list" where
  "KNOWLEDGE_TEAMS_TABLE = [
    (1, [(1, 15), (3/2, 23), (2, 30), (5/2, 45), (3, 60)]),
    (2, [(1, 30), (3/2, 40), (2, 48), (5/2, 63), (3, 78)]),
    (3, [(1, 50), (3/2, 58), (2, 65), (5/2, 80), (3, 95)]),
    (4, [(1, 63), (3/2, 70), (2, 78), (5/2, 93), (3, 108)]),
    (5, [(1, 75), (3/2, 83), (2, 90), (5/2, 105), (3, 120)]),
    (6, [(1, 90), (3/2, 113), (2, 125), (5/2, 138), (3, 150)]),
    (7, [(1, 113), (3/2, 131), (2, 148), (5/2, 161), (3, 173)]),
    (8, [(1, 180), (3/2, 198), (2, 215), (5/2, 228), (3, 240)])]"

definition BREADTH_TABLE :: "(rat \<times> int) list" where
  "BREADTH_TABLE = [(1, 0), (3/2, 5), (2, 10), (5/2, 15), (3, 20)]"

definition IPE_LEVEL_MAPPING :: "(int \<times> int \<times> int) list" where
  "IPE_LEVEL_MAPPING = [
    (40, 41, 1), (42, 43, 2), (44, 45, 3), (46, 47, 4),
    (48, 50, 5), (51, 52, 6), (53, 55, 7), (56, 57, 8),
    (58, 59, 9), (60, 61, 10), (62, 65, 11), (66, 73, 12)]"

subsection \<open>The score breakdown\<close>

text \<open>
  The dictionary returned beside the score, one field per key. The keys
  \<^verbatim>\<open>"breadth"\<close>, \<^verbatim>\<open>"size"\<close> and \<^verbatim>\<open>"total"\<close> carry a suffix here.
\<close>

record breakdown =
  impact_contribution_size :: int
  intermediate_value :: rat
  communication_frame :: int
  innovation_complexity :: int
  knowledge_teams :: int
  breadth_pts :: int
  size_factor :: rat
  total_pts :: int

subsection \<open>\<^verbatim>\<open>calculate_ipe_score\<close>\<close>

definition calculate_ipe_score :: "ratings \<Rightarrow> rat \<Rightarrow> int option \<times> breakdown" where
  "calculate_ipe_score ratings sz =
    (let impact = py_int (ratings_get ratings ''impact'' 1);
         contribution = ratings_get ratings ''contribution'' 1;
         intermediate = dict_get (dict_get IMPACT_CONTRIBUTION_TABLE (of_int impact) []) contribution 1;
         impact_contrib_size = dict_get (dict_get IMPACT_SIZE_TABLE intermediate []) (of_int (py_int sz)) 0;
         comm_frame = dict_get (dict_get COMMUNICATION_FRAME_TABLE
             (of_int (py_int (ratings_get ratings ''communication'' 1))) [])
             (ratings_get ratings ''frame'' 1) 0;
         innov_complex = dict_get (dict_get INNOVATION_COMPLEXITY_TABLE
             (of_int (py_int (ratings_get ratings ''innovation'' 1))) [])
             (ratings_get ratings ''complexity'' 1) 0;
         knowledge_teams_p = dict_get (dict_get KNOWLEDGE_TEAMS_TABLE
             (of_int (py_int (ratings_get ratings ''knowledge'' 1))) [])
             (ratings_get ratings ''teams'' 1) 0;
         breadth_p = dict_get BREADTH_TABLE (ratings_get ratings ''breadth'' 1) 0;
         total_p = impact_contrib_size + comm_frame + innov_complex + knowledge_teams_p + breadth_p;
         ipe_score = (if total_p > 26
                      then Some (py_int (of_int (total_p - 26) / 25 + 40))
                      else None)
     in (ipe_score,
         \<lparr>impact_contribution_size = impact_contrib_size,
          intermediate_value = intermediate,
          communication_frame = comm_frame,
          innovation_complexity = innov_complex,
          knowledge_teams = knowledge_teams_p,
          breadth_pts = breadth_p,
          size_factor = sz,
          total_pts = total_p\<rparr>))"

subsection \<open>\<^verbatim>\<open>score_to_level\<close>\<close>

text \<open>The loop over the band list returns at the first band that holds the score.\<close>

fun first_band :: "(int \<times> int \<times> int) list \<Rightarrow> int \<Rightarrow> int" where
  "first_band [] ipe_score = 1"
| "first_band ((lo, hi, level) # bands) ipe_score =
     (if lo \<le> ipe_score \<and> ipe_score \<le> hi then level else first_band bands ipe_score)"

definition score_to_level :: "int \<Rightarrow> int" where
  "score_to_level ipe_score = first_band IPE_LEVEL_MAPPING ipe_score"


subsection \<open>Inputs of the worked examples\<close>

text \<open>The second concrete scenario of the specification, evaluated at size 8.\<close>

definition scenario_ratings :: ratings where
  "scenario_ratings =
    [''impact'' \<mapsto> 4, ''contribution'' \<mapsto> 4, ''communication'' \<mapsto> 4, ''frame'' \<mapsto> 3,
     ''innovation'' \<mapsto> 4, ''complexity'' \<mapsto> 3, ''knowledge'' \<mapsto> 7, ''teams'' \<mapsto> 5/2,
     ''breadth'' \<mapsto> 5/2]"

text \<open>A vector whose nine ratings are all 9, a key of no table.\<close>

definition unlisted_ratings :: ratings where
  "unlisted_ratings =
    [''impact'' \<mapsto> 9, ''contribution'' \<mapsto> 9, ''communication'' \<mapsto> 9, ''frame'' \<mapsto> 9,
     ''innovation'' \<mapsto> 9, ''complexity'' \<mapsto> 9, ''knowledge'' \<mapsto> 9, ''teams'' \<mapsto> 9,
     ''breadth'' \<mapsto> 9]"

text \<open>The scenario with half-step ratings in the three row dimensions that allow them.\<close>

definition half_step_ratings :: ratings where
  "half_step_ratings =
    [''impact'' \<mapsto> 4, ''contribution'' \<mapsto> 4, ''communication'' \<mapsto> 7/2, ''frame'' \<mapsto> 3,
     ''innovation'' \<mapsto> 9/2, ''complexity'' \<mapsto> 3, ''knowledge'' \<mapsto> 15/2, ''teams'' \<mapsto> 5/2,
     ''breadth'' \<mapsto> 5/2]"

subsection \<open>Allowed ratings and rating steps\<close>

text \<open>The nine dimension names, as the loop of \<^verbatim>\<open>evaluate_dimensions\<close> lists them.\<close>

definition dimensions :: "string list" where
  "dimensions = [''impact'', ''contribution'', ''communication'', ''frame'', ''innovation'',
     ''complexity'', ''knowledge'', ''teams'', ''breadth'']"

text \<open>
  The allowed values of each dimension, ascending. The engine checks no rating against
  them: they are the discrete sets of the data model (Impact, Frame and Complexity whole
  numbers, the others in half steps), which the prompt text and the select boxes of the
  source offer to the rater. They state when a ratings vector is valid and what the next
  step of a rating is.
\<close>

definition spec_allowed_values :: "(string \<times> rat list) list" where
  "spec_allowed_values = [
    (''impact'', [1, 2, 3, 4, 5]),
    (''contribution'', [1, 3/2, 2, 5/2, 3, 7/2, 4, 9/2, 5]),
    (''communication'', [1, 3/2, 2, 5/2, 3, 7/2, 4, 9/2, 5]),
    (''frame'', [1, 2, 3, 4]),
    (''innovation'', [1, 3/2, 2, 5/2, 3, 7/2, 4, 9/2, 5, 11/2, 6]),
    (''complexity'', [1, 2, 3, 4]),
    (''knowledge'', [1, 3/2, 2, 5/2, 3, 7/2, 4, 9/2, 5, 11/2, 6, 13/2, 7, 15/2, 8]),
    (''teams'', [1, 3/2, 2, 5/2, 3]),
    (''breadth'', [1, 3/2, 2, 5/2, 3])]"

text \<open>A valid vector rates all nine dimensions, each with an allowed value.\<close>

definition valid_ratings :: "ratings \<Rightarrow> bool" where
  "valid_ratings r =
     list_all (\<lambda>d. case r d of None \<Rightarrow> False
                 | Some v \<Rightarrow> v \<in> set (dict_get spec_allowed_values d [])) dimensions"

text \<open>The value after \<open>v\<close> in an ascending list of values, if there is one.\<close>

fun next_step :: "rat list \<Rightarrow> rat \<Rightarrow> rat option" where
  "next_step (a # b # xs) v = (if v = a then Some b else next_step (b # xs) v)"
| "next_step xs v = None"

text \<open>The component of the breakdown that a dimension's lookup feeds.\<close>

definition component_of :: "string \<Rightarrow> breakdown \<Rightarrow> int" where
  "component_of d b =
     (if d = ''impact'' \<or> d = ''contribution'' then impact_contribution_size b
      else if d = ''communication'' \<or> d = ''frame'' then communication_frame b
      else if d = ''innovation'' \<or> d = ''complexity'' then innovation_complexity b
      else if d = ''knowledge'' \<or> d = ''teams'' then knowledge_teams b
      else breadth_pts b)"

text \<open>Two rows with the same column keys in the same order, the first pointwise below the second.\<close>

fun rows_le :: "(rat \<times> int) list \<Rightarrow> (rat \<times> int) list \<Rightarrow> bool" where
  "rows_le [] [] = True"
| "rows_le ((k, v) # xs) ((k', v') # ys) = (k = k' \<and> v \<le> v' \<and> rows_le xs ys)"
| "rows_le xs ys = False"

subsection \<open>The integer part of a rating\<close>

text \<open>
  The row key in the specification's words: the integer part of the rating, by truncation
  and not by rounding. \<open>k\<close> is the integer part of \<open>x\<close> when its magnitude is the whole
  part of the magnitude of \<open>x\<close> and its sign is not opposite to that of \<open>x\<close>. It is stated
  without \<open>py_int\<close>, to compare the source's \<^verbatim>\<open>int()\<close> with.
\<close>

definition spec_integer_part :: "rat \<Rightarrow> int \<Rightarrow> bool" where
  "spec_integer_part x k =
     (\<bar>of_int k\<bar> \<le> \<bar>x\<bar> \<and> \<bar>x\<bar> < \<bar>of_int k\<bar> + 1 \<and> 0 \<le> x * of_int k)"

section \<open>Properties\<close>

subsection \<open>Auxiliary facts\<close>

lemma py_int_of_int: "py_int (of_int k) = k"
  by (simp add: py_int_def)

lemma py_int_nonneg: "0 \<le> x \<Longrightarrow> py_int x = \<lfloor>x\<rfloor>"
  by (simp add: py_int_def)

lemma py_int_score: "0 < n \<Longrightarrow> py_int (of_int n / 25 + 40) = \<lfloor>of_int n / (25::rat)\<rfloor> + 40"
proof -
  assume "0 < n"
  then have "(0::rat) \<le> of_int n / 25 + 40" by simp
  then have "py_int (of_int n / 25 + 40) = \<lfloor>of_int n / (25::rat) + of_int 40\<rfloor>"
    by (simp add: py_int_nonneg)
  also have "\<dots> = \<lfloor>of_int n / (25::rat)\<rfloor> + 40"
    by (simp only: floor_add_int)
  finally show ?thesis .
qed

lemma floor_quotient_25: "\<lfloor>of_int n / (25::rat)\<rfloor> = n div 25"
  using floor_divide_of_int_eq [of n 25, where ?'a = rat] by simp

lemma score_of_total:
  "fst (calculate_ipe_score r s) =
     (if 26 < total_pts (snd (calculate_ipe_score r s))
      then Some (py_int (of_int (total_pts (snd (calculate_ipe_score r s)) - 26) / 25 + 40))
      else None)"
  by (simp add: calculate_ipe_score_def Let_def)

lemma scenario_result:
  "calculate_ipe_score scenario_ratings 8 =
     (Some 58,
      \<lparr>impact_contribution_size = 198, intermediate_value = 13, communication_frame = 65,
       innovation_complexity = 55, knowledge_teams = 161, breadth_pts = 15, size_factor = 8,
       total_pts = 494\<rparr>)"
  by code_simp


lemma total_25_result:
  "calculate_ipe_score (unlisted_ratings(''communication'' \<mapsto> 1, ''frame'' \<mapsto> 3)) 0 =
     (None,
      \<lparr>impact_contribution_size = 0, intermediate_value = 1, communication_frame = 25,
       innovation_complexity = 0, knowledge_teams = 0, breadth_pts = 0, size_factor = 0,
       total_pts = 25\<rparr>)"
  by code_simp

lemma level_of_58: "score_to_level 58 = 9"
  by (simp add: score_to_level_def IPE_LEVEL_MAPPING_def)

lemma first_band_mapping:
  "first_band IPE_LEVEL_MAPPING s =
     (if 40 \<le> s \<and> s \<le> 41 then 1 else if 42 \<le> s \<and> s \<le> 43 then 2
      else if 44 \<le> s \<and> s \<le> 45 then 3 else if 46 \<le> s \<and> s \<le> 47 then 4
      else if 48 \<le> s \<and> s \<le> 50 then 5 else if 51 \<le> s \<and> s \<le> 52 then 6
      else if 53 \<le> s \<and> s \<le> 55 then 7 else if 56 \<le> s \<and> s \<le> 57 then 8
      else if 58 \<le> s \<and> s \<le> 59 then 9 else if 60 \<le> s \<and> s \<le> 61 then 10
      else if 62 \<le> s \<and> s \<le> 65 then 11 else if 66 \<le> s \<and> s \<le> 73 then 12 else 1)"
  unfolding IPE_LEVEL_MAPPING_def first_band.simps ..

lemma band_members:
  "t \<in> set IPE_LEVEL_MAPPING \<longleftrightarrow>
     t = (40, 41, 1) \<or> t = (42, 43, 2) \<or> t = (44, 45, 3) \<or> t = (46, 47, 4) \<or>
     t = (48, 50, 5) \<or> t = (51, 52, 6) \<or> t = (53, 55, 7) \<or> t = (56, 57, 8) \<or>
     t = (58, 59, 9) \<or> t = (60, 61, 10) \<or> t = (62, 65, 11) \<or> t = (66, 73, 12)"
  by (simp add: IPE_LEVEL_MAPPING_def)

lemma band_level:
  assumes "t \<in> set IPE_LEVEL_MAPPING" and "fst t \<le> s" and "s \<le> fst (snd t)"
  shows "first_band IPE_LEVEL_MAPPING s = snd (snd t)"
  using assms unfolding band_members first_band_mapping
  by (elim disjE; simp)

lemma band_exists:
  assumes "40 \<le> s" and "s \<le> 73"
  shows "\<exists>t. t \<in> set IPE_LEVEL_MAPPING \<and> fst t \<le> s \<and> s \<le> fst (snd t)"
proof -
  from assms consider "s \<le> 41" | "42 \<le> s \<and> s \<le> 43" | "44 \<le> s \<and> s \<le> 45"
    | "46 \<le> s \<and> s \<le> 47" | "48 \<le> s \<and> s \<le> 50" | "51 \<le> s \<and> s \<le> 52"
    | "53 \<le> s \<and> s \<le> 55" | "56 \<le> s \<and> s \<le> 57" | "58 \<le> s \<and> s \<le> 59"
    | "60 \<le> s \<and> s \<le> 61" | "62 \<le> s \<and> s \<le> 65" | "66 \<le> s"
    by linarith
  then show ?thesis
  proof cases
    case 1 with assms show ?thesis by (intro exI [of _ "(40, 41, 1)"]) (simp add: band_members)
  next
    case 2 then show ?thesis by (intro exI [of _ "(42, 43, 2)"]) (simp add: band_members)
  next
    case 3 then show ?thesis by (intro exI [of _ "(44, 45, 3)"]) (simp add: band_members)
  next
    case 4 then show ?thesis by (intro exI [of _ "(46, 47, 4)"]) (simp add: band_members)
  next
    case 5 then show ?thesis by (intro exI [of _ "(48, 50, 5)"]) (simp add: band_members)
  next
    case 6 then show ?thesis by (intro exI [of _ "(51, 52, 6)"]) (simp add: band_members)
  next
    case 7 then show ?thesis by (intro exI [of _ "(53, 55, 7)"]) (simp add: band_members)
  next
    case 8 then show ?thesis by (intro exI [of _ "(56, 57, 8)"]) (simp add: band_members)
  next
    case 9 then show ?thesis by (intro exI [of _ "(58, 59, 9)"]) (simp add: band_members)
  next
    case 10 then show ?thesis by (intro exI [of _ "(60, 61, 10)"]) (simp add: band_members)
  next
    case 11 then show ?thesis by (intro exI [of _ "(62, 65, 11)"]) (simp add: band_members)
  next
    case 12 with assms show ?thesis by (intro exI [of _ "(66, 73, 12)"]) (simp add: band_members)
  qed
qed

lemma band_level_determines:
  assumes "t \<in> set IPE_LEVEL_MAPPING" and "snd (snd t) = l"
    and "t' \<in> set IPE_LEVEL_MAPPING" and "snd (snd t') = l"
  shows "t = t'"
  using assms(1,2) unfolding band_members
  by (elim disjE; insert assms(3,4); simp add: band_members; elim disjE; simp)

lemma calc_intermediate:
  "intermediate_value (snd (calculate_ipe_score r s)) =
     dict_get (dict_get IMPACT_CONTRIBUTION_TABLE (of_int (py_int (ratings_get r ''impact'' 1))) [])
       (ratings_get r ''contribution'' 1) 1"
  by (simp add: calculate_ipe_score_def Let_def)

lemma calc_impact_contribution_size:
  "impact_contribution_size (snd (calculate_ipe_score r s)) =
     dict_get (dict_get IMPACT_SIZE_TABLE
       (dict_get (dict_get IMPACT_CONTRIBUTION_TABLE (of_int (py_int (ratings_get r ''impact'' 1))) [])
          (ratings_get r ''contribution'' 1) 1) []) (of_int (py_int s)) 0"
  by (simp add: calculate_ipe_score_def Let_def)

lemma calc_communication_frame:
  "communication_frame (snd (calculate_ipe_score r s)) =
     dict_get (dict_get COMMUNICATION_FRAME_TABLE (of_int (py_int (ratings_get r ''communication'' 1))) [])
       (ratings_get r ''frame'' 1) 0"
  by (simp add: calculate_ipe_score_def Let_def)

lemma calc_innovation_complexity:
  "innovation_complexity (snd (calculate_ipe_score r s)) =
     dict_get (dict_get INNOVATION_COMPLEXITY_TABLE (of_int (py_int (ratings_get r ''innovation'' 1))) [])
       (ratings_get r ''complexity'' 1) 0"
  by (simp add: calculate_ipe_score_def Let_def)

lemma calc_knowledge_teams:
  "knowledge_teams (snd (calculate_ipe_score r s)) =
     dict_get (dict_get KNOWLEDGE_TEAMS_TABLE (of_int (py_int (ratings_get r ''knowledge'' 1))) [])
       (ratings_get r ''teams'' 1) 0"
  by (simp add: calculate_ipe_score_def Let_def)

lemma calc_breadth:
  "breadth_pts (snd (calculate_ipe_score r s)) = dict_get BREADTH_TABLE (ratings_get r ''breadth'' 1) 0"
  by (simp add: calculate_ipe_score_def Let_def)

lemma dict_get_absent: "map_of d k = None \<Longrightarrow> dict_get d k dflt = dflt"
  by (induction d) (auto split: if_splits)

lemma unlisted_result:
  "calculate_ipe_score unlisted_ratings 0 =
     (None,
      \<lparr>impact_contribution_size = 0, intermediate_value = 1, communication_frame = 0,
       innovation_complexity = 0, knowledge_teams = 0, breadth_pts = 0, size_factor = 0,
       total_pts = 0\<rparr>)"
  by code_simp

lemma empty_result:
  "calculate_ipe_score Map.empty 7 =
     (Some 40,
      \<lparr>impact_contribution_size = 5, intermediate_value = 1, communication_frame = 10,
       innovation_complexity = 10, knowledge_teams = 15, breadth_pts = 0, size_factor = 7,
       total_pts = 40\<rparr>)"
  by code_simp

lemma ratings_get_default: "r d = None \<Longrightarrow> ratings_get (r(d \<mapsto> 1)) k 1 = ratings_get r k 1"
  by (simp add: ratings_get_def)

lemma py_int_unique:
  assumes "spec_integer_part x k"
  shows "py_int x = k"
proof (cases "0 \<le> x")
  case True
  from assms have a: "\<bar>of_int k\<bar> \<le> \<bar>x\<bar>" "\<bar>x\<bar> < \<bar>of_int k\<bar> + 1" "0 \<le> x * of_int k"
    by (simp_all add: spec_integer_part_def)
  have k: "(0::rat) \<le> of_int k"
  proof (cases "x = 0")
    case True with a(1) show ?thesis by simp
  next
    case False
    with \<open>0 \<le> x\<close> have "0 < x" by simp
    with a(3) show ?thesis by (simp add: zero_le_mult_iff)
  qed
  with a True have "of_int k \<le> x" "x < of_int k + 1" by simp_all
  then have "\<lfloor>x\<rfloor> = k" by (intro floor_unique) simp_all
  with True show ?thesis by (simp add: py_int_def)
next
  case False
  from assms have a: "\<bar>of_int k\<bar> \<le> \<bar>x\<bar>" "\<bar>x\<bar> < \<bar>of_int k\<bar> + 1" "0 \<le> x * of_int k"
    by (simp_all add: spec_integer_part_def)
  from False have neg: "x < 0" by simp
  with a(3) have k: "(of_int k :: rat) \<le> 0" by (simp add: zero_le_mult_iff)
  with a neg have "of_int k - 1 < x" "x \<le> of_int k" by simp_all
  then have "\<lceil>x\<rceil> = k" by (intro ceiling_unique) simp_all
  with False show ?thesis by (simp add: py_int_def)
qed

lemma dict_get_present: "map_of d k = Some v \<Longrightarrow> dict_get d k dflt = v"
  by (induction d) (auto split: if_splits)

lemma cf_column_miss:
  "f \<notin> set (dict_get spec_allowed_values ''frame'' [])
   \<Longrightarrow> dict_get (dict_get COMMUNICATION_FRAME_TABLE k []) f 0 = 0"
  by (simp add: spec_allowed_values_def COMMUNICATION_FRAME_TABLE_def)

lemma ix_column_miss:
  "x \<notin> set (dict_get spec_allowed_values ''complexity'' [])
   \<Longrightarrow> dict_get (dict_get INNOVATION_COMPLEXITY_TABLE k []) x 0 = 0"
  by (simp add: spec_allowed_values_def INNOVATION_COMPLEXITY_TABLE_def)

lemma kt_column_miss:
  "t \<notin> set (dict_get spec_allowed_values ''teams'' [])
   \<Longrightarrow> dict_get (dict_get KNOWLEDGE_TEAMS_TABLE k []) t 0 = 0"
  by (simp add: spec_allowed_values_def KNOWLEDGE_TEAMS_TABLE_def)

lemma breadth_miss:
  "b \<notin> set (dict_get spec_allowed_values ''breadth'' []) \<Longrightarrow> dict_get BREADTH_TABLE b 0 = 0"
  by (simp add: spec_allowed_values_def BREADTH_TABLE_def)

lemma ic_column_miss:
  "c \<notin> set (dict_get spec_allowed_values ''contribution'' [])
   \<Longrightarrow> dict_get (dict_get IMPACT_CONTRIBUTION_TABLE k []) c 1 = 1"
  by (simp add: spec_allowed_values_def IMPACT_CONTRIBUTION_TABLE_def)


lemma truncated_rating_same:
  assumes "r d = Some v"
    and "d = ''impact'' \<or> d = ''communication'' \<or> d = ''innovation'' \<or> d = ''knowledge''"
  shows "calculate_ipe_score r s = calculate_ipe_score (r(d \<mapsto> of_int (py_int v))) s"
  using assms(2)
proof (elim disjE)
  assume d: "d = ''impact''"
  with assms(1) show ?thesis
    by (simp add: calculate_ipe_score_def ratings_get_def py_int_of_int)
next
  assume d: "d = ''communication''"
  with assms(1) show ?thesis
    by (simp add: calculate_ipe_score_def ratings_get_def py_int_of_int)
next
  assume d: "d = ''innovation''"
  with assms(1) show ?thesis
    by (simp add: calculate_ipe_score_def ratings_get_def py_int_of_int)
next
  assume d: "d = ''knowledge''"
  with assms(1) show ?thesis
    by (simp add: calculate_ipe_score_def ratings_get_def py_int_of_int)
qed

lemma unlisted_values:
  "unlisted_ratings ''impact'' = Some 9" "unlisted_ratings ''contribution'' = Some 9"
  "unlisted_ratings ''frame'' = Some 9" "unlisted_ratings ''complexity'' = Some 9"
  "unlisted_ratings ''teams'' = Some 9" "unlisted_ratings ''breadth'' = Some 9"
  by (simp_all add: unlisted_ratings_def)

lemma nine_not_allowed:
  "9 \<notin> set (dict_get spec_allowed_values ''contribution'' [])"
  "9 \<notin> set (dict_get spec_allowed_values ''frame'' [])"
  "9 \<notin> set (dict_get spec_allowed_values ''complexity'' [])"
  "9 \<notin> set (dict_get spec_allowed_values ''teams'' [])"
  "9 \<notin> set (dict_get spec_allowed_values ''breadth'' [])"
  by (simp_all add: spec_allowed_values_def)

lemma rows_le_get: "rows_le xs ys \<Longrightarrow> dict_get xs k 0 \<le> dict_get ys k 0"
  by (induction xs ys rule: rows_le.induct) auto

lemma next_step_zip: "next_step xs v = Some w \<Longrightarrow> (v, w) \<in> set (zip xs (tl xs))"
  by (induction xs v rule: next_step.induct) (auto split: if_splits)

lemma ratings_get_upd_same: "ratings_get (r(k \<mapsto> v)) k dflt = v"
  by (simp add: ratings_get_def)

lemma ratings_get_upd_other: "k' \<noteq> k \<Longrightarrow> ratings_get (r(k \<mapsto> v)) k' dflt = ratings_get r k' dflt"
  by (simp add: ratings_get_def)

lemma ratings_get_Some: "r k = Some v \<Longrightarrow> ratings_get r k dflt = v"
  by (simp add: ratings_get_def)

lemma valid_get:
  assumes "valid_ratings r" and "k \<in> set dimensions"
  shows "ratings_get r k 1 \<in> set (dict_get spec_allowed_values k [])"
proof -
  from assms have "case r k of None \<Rightarrow> False | Some v \<Rightarrow> v \<in> set (dict_get spec_allowed_values k [])"
    unfolding valid_ratings_def list_all_iff by blast
  then show ?thesis by (cases "r k") (simp_all add: ratings_get_def)
qed

lemma ics_impact_steps:
  "\<forall>p \<in> set (zip (dict_get spec_allowed_values ''impact'' []) (tl (dict_get spec_allowed_values ''impact'' []))).
   \<forall>c \<in> set (dict_get spec_allowed_values ''contribution'' []).
     rows_le (dict_get IMPACT_SIZE_TABLE
                (dict_get (dict_get IMPACT_CONTRIBUTION_TABLE (of_int (py_int (fst p))) []) c 1) [])
             (dict_get IMPACT_SIZE_TABLE
                (dict_get (dict_get IMPACT_CONTRIBUTION_TABLE (of_int (py_int (snd p))) []) c 1) [])"
  by code_simp

lemma ics_contribution_steps:
  "\<forall>p \<in> set (zip (dict_get spec_allowed_values ''contribution'' []) (tl (dict_get spec_allowed_values ''contribution'' []))).
   \<forall>i \<in> set (dict_get spec_allowed_values ''impact'' []).
     rows_le (dict_get IMPACT_SIZE_TABLE
                (dict_get (dict_get IMPACT_CONTRIBUTION_TABLE (of_int (py_int i)) []) (fst p) 1) [])
             (dict_get IMPACT_SIZE_TABLE
                (dict_get (dict_get IMPACT_CONTRIBUTION_TABLE (of_int (py_int i)) []) (snd p) 1) [])"
  by code_simp

lemma cf_communication_steps:
  "\<forall>p \<in> set (zip (dict_get spec_allowed_values ''communication'' []) (tl (dict_get spec_allowed_values ''communication'' []))).
   \<forall>c \<in> set (dict_get spec_allowed_values ''frame'' []).
     dict_get (dict_get COMMUNICATION_FRAME_TABLE (of_int (py_int (fst p))) []) c 0
       \<le> dict_get (dict_get COMMUNICATION_FRAME_TABLE (of_int (py_int (snd p))) []) c 0"
  by code_simp

lemma cf_frame_steps:
  "\<forall>p \<in> set (zip (dict_get spec_allowed_values ''frame'' []) (tl (dict_get spec_allowed_values ''frame'' []))).
   \<forall>m \<in> set (dict_get spec_allowed_values ''communication'' []).
     dict_get (dict_get COMMUNICATION_FRAME_TABLE (of_int (py_int m)) []) (fst p) 0
       \<le> dict_get (dict_get COMMUNICATION_FRAME_TABLE (of_int (py_int m)) []) (snd p) 0"
  by code_simp

lemma ix_innovation_steps:
  "\<forall>p \<in> set (zip (dict_get spec_allowed_values ''innovation'' []) (tl (dict_get spec_allowed_values ''innovation'' []))).
   \<forall>c \<in> set (dict_get spec_allowed_values ''complexity'' []).
     dict_get (dict_get INNOVATION_COMPLEXITY_TABLE (of_int (py_int (fst p))) []) c 0
       \<le> dict_get (dict_get INNOVATION_COMPLEXITY_TABLE (of_int (py_int (snd p))) []) c 0"
  by code_simp

lemma ix_complexity_steps:
  "\<forall>p \<in> set (zip (dict_get spec_allowed_values ''complexity'' []) (tl (dict_get spec_allowed_values ''complexity'' []))).
   \<forall>m \<in> set (dict_get spec_allowed_values ''innovation'' []).
     dict_get (dict_get INNOVATION_COMPLEXITY_TABLE (of_int (py_int m)) []) (fst p) 0
       \<le> dict_get (dict_get INNOVATION_COMPLEXITY_TABLE (of_int (py_int m)) []) (snd p) 0"
  by code_simp

lemma kt_knowledge_steps:
  "\<forall>p \<in> set (zip (dict_get spec_allowed_values ''knowledge'' []) (tl (dict_get spec_allowed_values ''knowledge'' []))).
   \<forall>c \<in> set (dict_get spec_allowed_values ''teams'' []).
     dict_get (dict_get KNOWLEDGE_TEAMS_TABLE (of_int (py_int (fst p))) []) c 0
       \<le> dict_get (dict_get KNOWLEDGE_TEAMS_TABLE (of_int (py_int (snd p))) []) c 0"
  by code_simp

lemma kt_teams_steps:
  "\<forall>p \<in> set (zip (dict_get spec_allowed_values ''teams'' []) (tl (dict_get spec_allowed_values ''teams'' []))).
   \<forall>m \<in> set (dict_get spec_allowed_values ''knowledge'' []).
     dict_get (dict_get KNOWLEDGE_TEAMS_TABLE (of_int (py_int m)) []) (fst p) 0
       \<le> dict_get (dict_get KNOWLEDGE_TEAMS_TABLE (of_int (py_int m)) []) (snd p) 0"
  by code_simp

lemma breadth_steps:
  "\<forall>p \<in> set (zip (dict_get spec_allowed_values ''breadth'' []) (tl (dict_get spec_allowed_values ''breadth'' []))).
     dict_get BREADTH_TABLE (fst p) 0 \<le> dict_get BREADTH_TABLE (snd p) 0"
  by code_simp

lemma scenario_impact_5_result:
  "calculate_ipe_score (scenario_ratings(''impact'' \<mapsto> 5)) 8 =
     (Some 60,
      \<lparr>impact_contribution_size = 252, intermediate_value = 16, communication_frame = 65,
       innovation_complexity = 55, knowledge_teams = 161, breadth_pts = 15, size_factor = 8,
       total_pts = 548\<rparr>)"
  by code_simp

lemma scenario_valid: "valid_ratings scenario_ratings"
  by code_simp

subsection \<open>Score banding\<close>



text \<open>
  C2. Whenever the lookups give a total of at most 26 (26 included), the score returned is
  \<open>None\<close>: no number. The function has no failing branch after the lookups.
\<close>

theorem no_score_up_to_26:
  assumes "total_pts (snd (calculate_ipe_score r s)) \<le> 26"
  shows "fst (calculate_ipe_score r s) = None"
  using assms by (simp add: score_of_total)

theorem no_score_up_to_26_witness:
  "total_pts (snd (calculate_ipe_score
       (unlisted_ratings(''communication'' \<mapsto> 1, ''frame'' \<mapsto> 3)) 0)) \<le> 26
   \<and> fst (calculate_ipe_score (unlisted_ratings(''communication'' \<mapsto> 1, ''frame'' \<mapsto> 3)) 0) = None"
proof -
  let ?r = "unlisted_ratings(''communication'' \<mapsto> 1, ''frame'' \<mapsto> 3)"
  have h: "total_pts (snd (calculate_ipe_score ?r 0)) \<le> 26"
    by (simp add: total_25_result)
  from h no_score_up_to_26 [OF h] show ?thesis by (intro conjI)
qed

text \<open>
  C10. A score that is returned as a number is an integer of at least 40, hence never zero
  or negative: its truth value in \<^verbatim>\<open>if ipe_score:\<close> tells it from \<open>None\<close>.
\<close>

theorem defined_score_at_least_40:
  assumes "fst (calculate_ipe_score r s) = Some v"
  shows "40 \<le> v \<and> v \<noteq> 0"
proof -
  let ?t = "total_pts (snd (calculate_ipe_score r s))"
  from assms have above: "26 < ?t"
    by (simp add: score_of_total split: if_splits)
  then have pos: "0 < ?t - 26" by simp
  from assms above have "v = py_int (of_int (?t - 26) / 25 + 40)"
    by (simp add: score_of_total)
  then have v: "v = (?t - 26) div 25 + 40"
    by (simp only: py_int_score [OF pos] floor_quotient_25)
  from pos have "0 \<le> (?t - 26) div 25"
    by (simp add: pos_imp_zdiv_nonneg_iff)
  with v show ?thesis by simp
qed

theorem defined_score_at_least_40_witness:
  "fst (calculate_ipe_score scenario_ratings 8) = Some 58 \<and> (40::int) \<le> 58 \<and> (58::int) \<noteq> 0"
proof -
  have h: "fst (calculate_ipe_score scenario_ratings 8) = Some 58"
    by (simp add: scenario_result)
  from h defined_score_at_least_40 [OF h] show ?thesis by (intro conjI) simp_all
qed

subsection \<open>The worked example\<close>

text \<open>
  C6. Impact 4, Contribution 4, Size 8, Communication 4, Frame 3, Innovation 4,
  Complexity 3, Knowledge 7, Teams 2.5, Breadth 2.5: the intermediate value is 13, the
  components are 198, 65, 55, 161 and 15, the total is 494, the score is 58 and the level
  is 9.
\<close>

theorem worked_example:
  "intermediate_value (snd (calculate_ipe_score scenario_ratings 8)) = 13
   \<and> impact_contribution_size (snd (calculate_ipe_score scenario_ratings 8)) = 198
   \<and> communication_frame (snd (calculate_ipe_score scenario_ratings 8)) = 65
   \<and> innovation_complexity (snd (calculate_ipe_score scenario_ratings 8)) = 55
   \<and> knowledge_teams (snd (calculate_ipe_score scenario_ratings 8)) = 161
   \<and> breadth_pts (snd (calculate_ipe_score scenario_ratings 8)) = 15
   \<and> total_pts (snd (calculate_ipe_score scenario_ratings 8)) = 198 + 65 + 55 + 161 + 15
   \<and> total_pts (snd (calculate_ipe_score scenario_ratings 8)) = 494
   \<and> fst (calculate_ipe_score scenario_ratings 8) = Some 58
   \<and> score_to_level 58 = 9"
  by (simp add: scenario_result level_of_58)

subsection \<open>Level mapping\<close>

text \<open>
  C4. For an integer score from 40 to 73, exactly one triple \<open>(lo, hi, level)\<close> of the
  band table has \<open>lo \<le> score \<le> hi\<close>, and \<open>score_to_level\<close> returns the level of that
  triple. For an integer score below 40 or above 73 it returns the fallback level 1.
\<close>

theorem score_to_level_bands:
  "(40 \<le> s \<and> s \<le> 73 \<longrightarrow>
      (\<exists>!t. t \<in> set IPE_LEVEL_MAPPING \<and> fst t \<le> s \<and> s \<le> fst (snd t))
      \<and> (\<forall>t \<in> set IPE_LEVEL_MAPPING. fst t \<le> s \<and> s \<le> fst (snd t) \<longrightarrow>
             score_to_level s = snd (snd t)))
   \<and> (s < 40 \<or> 73 < s \<longrightarrow> score_to_level s = 1)"
proof (intro conjI impI ballI)
  assume "40 \<le> s \<and> s \<le> 73"
  then obtain t where t: "t \<in> set IPE_LEVEL_MAPPING" "fst t \<le> s" "s \<le> fst (snd t)"
    using band_exists by blast
  show "\<exists>!t. t \<in> set IPE_LEVEL_MAPPING \<and> fst t \<le> s \<and> s \<le> fst (snd t)"
  proof (rule ex1I [of _ t])
    from t show "t \<in> set IPE_LEVEL_MAPPING \<and> fst t \<le> s \<and> s \<le> fst (snd t)" by simp
  next
    fix t'
    assume t': "t' \<in> set IPE_LEVEL_MAPPING \<and> fst t' \<le> s \<and> s \<le> fst (snd t')"
    then have "first_band IPE_LEVEL_MAPPING s = snd (snd t')" by (simp add: band_level)
    moreover from t have "first_band IPE_LEVEL_MAPPING s = snd (snd t)" by (simp add: band_level)
    ultimately have "snd (snd t') = snd (snd t)" by simp
    with t' t(1) show "t' = t" by (blast intro: band_level_determines)
  qed
next
  fix t
  assume "t \<in> set IPE_LEVEL_MAPPING" and "fst t \<le> s \<and> s \<le> fst (snd t)"
  then show "score_to_level s = snd (snd t)"
    by (simp add: score_to_level_def band_level)
next
  assume "s < 40 \<or> 73 < s"
  then show "score_to_level s = 1"
    unfolding score_to_level_def first_band_mapping by (elim disjE; simp)
qed

theorem score_to_level_bands_witness:
  "(40::int) \<le> 58 \<and> (58::int) \<le> 73 \<and> (58, 59, 9) \<in> set IPE_LEVEL_MAPPING
   \<and> score_to_level 58 = 9 \<and> (73::int) < 74 \<and> score_to_level 74 = 1
   \<and> (39::int) < 40 \<and> score_to_level 39 = 1"
proof -
  have m: "(58, 59, 9) \<in> set IPE_LEVEL_MAPPING" by (simp add: band_members)
  have h: "(40::int) \<le> 58 \<and> (58::int) \<le> 73" by simp
  from score_to_level_bands [of 58] h m have "score_to_level 58 = 9" by fastforce
  moreover from score_to_level_bands [of 74] have "score_to_level 74 = 1" by simp
  moreover from score_to_level_bands [of 39] have "score_to_level 39 = 1" by simp
  ultimately show ?thesis using m by simp
qed

subsection \<open>Lookup misses\<close>

text \<open>
  C3, as the claim states it, fails on the Impact x Contribution lookup: with Impact 1 and
  Contribution 7 the pair is in no row, and the lookup yields the intermediate value 1, not
  0; row 1 of the Impact x Size table then gives 5 points at size 7.
\<close>

theorem intermediate_miss_counterexample:
  "map_of (dict_get IMPACT_CONTRIBUTION_TABLE (of_int (py_int 1)) []) 7 = None
   \<and> intermediate_value (snd (calculate_ipe_score [''impact'' \<mapsto> 1, ''contribution'' \<mapsto> 7] 7)) = 1
   \<and> intermediate_value (snd (calculate_ipe_score [''impact'' \<mapsto> 1, ''contribution'' \<mapsto> 7] 7)) \<noteq> 0
   \<and> impact_contribution_size (snd (calculate_ipe_score [''impact'' \<mapsto> 1, ''contribution'' \<mapsto> 7] 7)) = 5"
  by code_simp

text \<open>
  C3, amended. A pair absent from the Impact x Size, Communication x Frame,
  Innovation x Complexity, Knowledge x Teams or Breadth table yields 0 points for that
  component; a pair absent from the Impact x Contribution table yields the intermediate
  value 1. In every case the evaluation goes on and returns its result.
\<close>

theorem missing_entry_defaults:
  "(map_of (dict_get IMPACT_CONTRIBUTION_TABLE (of_int (py_int (ratings_get r ''impact'' 1))) [])
        (ratings_get r ''contribution'' 1) = None
      \<longrightarrow> intermediate_value (snd (calculate_ipe_score r s)) = 1)
   \<and> (map_of (dict_get IMPACT_SIZE_TABLE (intermediate_value (snd (calculate_ipe_score r s))) [])
        (of_int (py_int s)) = None
      \<longrightarrow> impact_contribution_size (snd (calculate_ipe_score r s)) = 0)
   \<and> (map_of (dict_get COMMUNICATION_FRAME_TABLE (of_int (py_int (ratings_get r ''communication'' 1))) [])
        (ratings_get r ''frame'' 1) = None
      \<longrightarrow> communication_frame (snd (calculate_ipe_score r s)) = 0)
   \<and> (map_of (dict_get INNOVATION_COMPLEXITY_TABLE (of_int (py_int (ratings_get r ''innovation'' 1))) [])
        (ratings_get r ''complexity'' 1) = None
      \<longrightarrow> innovation_complexity (snd (calculate_ipe_score r s)) = 0)
   \<and> (map_of (dict_get KNOWLEDGE_TEAMS_TABLE (of_int (py_int (ratings_get r ''knowledge'' 1))) [])
        (ratings_get r ''teams'' 1) = None
      \<longrightarrow> knowledge_teams (snd (calculate_ipe_score r s)) = 0)
   \<and> (map_of BREADTH_TABLE (ratings_get r ''breadth'' 1) = None
      \<longrightarrow> breadth_pts (snd (calculate_ipe_score r s)) = 0)"
  by (simp only: calc_intermediate calc_impact_contribution_size calc_communication_frame
      calc_innovation_complexity calc_knowledge_teams calc_breadth)
     (intro conjI impI; erule dict_get_absent)

theorem missing_entry_defaults_witness:
  "map_of (dict_get IMPACT_CONTRIBUTION_TABLE (of_int (py_int (ratings_get unlisted_ratings ''impact'' 1))) [])
        (ratings_get unlisted_ratings ''contribution'' 1) = None
   \<and> map_of (dict_get IMPACT_SIZE_TABLE (intermediate_value (snd (calculate_ipe_score unlisted_ratings 0))) [])
        (of_int (py_int 0)) = None
   \<and> map_of (dict_get COMMUNICATION_FRAME_TABLE (of_int (py_int (ratings_get unlisted_ratings ''communication'' 1))) [])
        (ratings_get unlisted_ratings ''frame'' 1) = None
   \<and> map_of (dict_get INNOVATION_COMPLEXITY_TABLE (of_int (py_int (ratings_get unlisted_ratings ''innovation'' 1))) [])
        (ratings_get unlisted_ratings ''complexity'' 1) = None
   \<and> map_of (dict_get KNOWLEDGE_TEAMS_TABLE (of_int (py_int (ratings_get unlisted_ratings ''knowledge'' 1))) [])
        (ratings_get unlisted_ratings ''teams'' 1) = None
   \<and> map_of BREADTH_TABLE (ratings_get unlisted_ratings ''breadth'' 1) = None
   \<and> intermediate_value (snd (calculate_ipe_score unlisted_ratings 0)) = 1
   \<and> impact_contribution_size (snd (calculate_ipe_score unlisted_ratings 0)) = 0
   \<and> communication_frame (snd (calculate_ipe_score unlisted_ratings 0)) = 0
   \<and> innovation_complexity (snd (calculate_ipe_score unlisted_ratings 0)) = 0
   \<and> knowledge_teams (snd (calculate_ipe_score unlisted_ratings 0)) = 0
   \<and> breadth_pts (snd (calculate_ipe_score unlisted_ratings 0)) = 0"
proof -
  have h1: "map_of (dict_get IMPACT_CONTRIBUTION_TABLE (of_int (py_int (ratings_get unlisted_ratings ''impact'' 1))) [])
        (ratings_get unlisted_ratings ''contribution'' 1) = None"
    by code_simp
  have h2: "map_of (dict_get IMPACT_SIZE_TABLE (intermediate_value (snd (calculate_ipe_score unlisted_ratings 0))) [])
        (of_int (py_int 0)) = None"
    by code_simp
  have h3: "map_of (dict_get COMMUNICATION_FRAME_TABLE (of_int (py_int (ratings_get unlisted_ratings ''communication'' 1))) [])
        (ratings_get unlisted_ratings ''frame'' 1) = None"
    by code_simp
  have h4: "map_of (dict_get INNOVATION_COMPLEXITY_TABLE (of_int (py_int (ratings_get unlisted_ratings ''innovation'' 1))) [])
        (ratings_get unlisted_ratings ''complexity'' 1) = None"
    by code_simp
  have h5: "map_of (dict_get KNOWLEDGE_TEAMS_TABLE (of_int (py_int (ratings_get unlisted_ratings ''knowledge'' 1))) [])
        (ratings_get unlisted_ratings ''teams'' 1) = None"
    by code_simp
  have h6: "map_of BREADTH_TABLE (ratings_get unlisted_ratings ''breadth'' 1) = None"
    by code_simp
  from missing_entry_defaults [of unlisted_ratings 0] h1 h2 h3 h4 h5 h6
  show ?thesis by blast
qed

subsection \<open>Malformed rating vectors\<close>

text \<open>
  C5, as the claim states it, fails: the engine validates nothing. The empty vector, which
  misses all nine keys, is scored 40, and a Frame of 2.5, outside the allowed values of
  Frame, is scored as well.
\<close>

theorem no_validation_counterexample:
  "Map.empty ''impact'' = (None :: rat option)
   \<and> fst (calculate_ipe_score Map.empty 7) = Some 40
   \<and> 5/2 \<notin> set (dict_get spec_allowed_values ''frame'' [])
   \<and> fst (calculate_ipe_score (scenario_ratings(''frame'' \<mapsto> 5/2)) 8) = Some 56"
  by code_simp

text \<open>
  C5, amended. A malformed vector of numbers is not rejected; the engine computes a result
  from it without a word. A missing dimension key is read as the rating 1. A rating of
  Impact, Communication, Innovation or Knowledge, whatever its value, is replaced by its
  integer part. A Frame, Complexity, Teams or Breadth value outside the allowed set of its
  dimension gives its component 0 points, and a Contribution value outside its allowed
  set gives the intermediate value 1.
\<close>

theorem malformed_vector_not_rejected:
  "(r d = None \<longrightarrow> calculate_ipe_score r s = calculate_ipe_score (r(d \<mapsto> 1)) s)
   \<and> (r d = Some v
        \<and> (d = ''impact'' \<or> d = ''communication'' \<or> d = ''innovation'' \<or> d = ''knowledge'')
      \<longrightarrow> calculate_ipe_score r s = calculate_ipe_score (r(d \<mapsto> of_int (py_int v))) s)
   \<and> (r ''contribution'' = Some c \<and> c \<notin> set (dict_get spec_allowed_values ''contribution'' [])
      \<longrightarrow> intermediate_value (snd (calculate_ipe_score r s)) = 1)
   \<and> (r ''frame'' = Some f \<and> f \<notin> set (dict_get spec_allowed_values ''frame'' [])
      \<longrightarrow> communication_frame (snd (calculate_ipe_score r s)) = 0)
   \<and> (r ''complexity'' = Some x \<and> x \<notin> set (dict_get spec_allowed_values ''complexity'' [])
      \<longrightarrow> innovation_complexity (snd (calculate_ipe_score r s)) = 0)
   \<and> (r ''teams'' = Some t \<and> t \<notin> set (dict_get spec_allowed_values ''teams'' [])
      \<longrightarrow> knowledge_teams (snd (calculate_ipe_score r s)) = 0)
   \<and> (r ''breadth'' = Some b \<and> b \<notin> set (dict_get spec_allowed_values ''breadth'' [])
      \<longrightarrow> breadth_pts (snd (calculate_ipe_score r s)) = 0)"
proof (intro conjI impI; (elim conjE)?)
  assume "r d = None"
  then show "calculate_ipe_score r s = calculate_ipe_score (r(d \<mapsto> 1)) s"
    by (simp add: calculate_ipe_score_def ratings_get_default)
next
  assume "r d = Some v"
    and "d = ''impact'' \<or> d = ''communication'' \<or> d = ''innovation'' \<or> d = ''knowledge''"
  then show "calculate_ipe_score r s = calculate_ipe_score (r(d \<mapsto> of_int (py_int v))) s"
    by (rule truncated_rating_same)
next
  assume "r ''contribution'' = Some c" "c \<notin> set (dict_get spec_allowed_values ''contribution'' [])"
  then show "intermediate_value (snd (calculate_ipe_score r s)) = 1"
    by (simp add: calc_intermediate ratings_get_def ic_column_miss)
next
  assume "r ''frame'' = Some f" "f \<notin> set (dict_get spec_allowed_values ''frame'' [])"
  then show "communication_frame (snd (calculate_ipe_score r s)) = 0"
    by (simp add: calc_communication_frame ratings_get_def cf_column_miss)
next
  assume "r ''complexity'' = Some x" "x \<notin> set (dict_get spec_allowed_values ''complexity'' [])"
  then show "innovation_complexity (snd (calculate_ipe_score r s)) = 0"
    by (simp add: calc_innovation_complexity ratings_get_def ix_column_miss)
next
  assume "r ''teams'' = Some t" "t \<notin> set (dict_get spec_allowed_values ''teams'' [])"
  then show "knowledge_teams (snd (calculate_ipe_score r s)) = 0"
    by (simp add: calc_knowledge_teams ratings_get_def kt_column_miss)
next
  assume "r ''breadth'' = Some b" "b \<notin> set (dict_get spec_allowed_values ''breadth'' [])"
  then show "breadth_pts (snd (calculate_ipe_score r s)) = 0"
    by (simp add: calc_breadth ratings_get_def breadth_miss)
qed

theorem malformed_vector_not_rejected_witness:
  "Map.empty ''impact'' = (None :: rat option)
   \<and> calculate_ipe_score Map.empty 7 = calculate_ipe_score [''impact'' \<mapsto> 1] 7
   \<and> [''impact'' \<mapsto> 5/2] ''impact'' = Some (5/2 :: rat)
   \<and> calculate_ipe_score [''impact'' \<mapsto> 5/2] 7
        = calculate_ipe_score ([''impact'' \<mapsto> 5/2](''impact'' \<mapsto> of_int (py_int (5/2)))) 7
   \<and> unlisted_ratings ''contribution'' = Some 9
   \<and> 9 \<notin> set (dict_get spec_allowed_values ''contribution'' [])
   \<and> intermediate_value (snd (calculate_ipe_score unlisted_ratings 0)) = 1
   \<and> unlisted_ratings ''frame'' = Some 9
   \<and> 9 \<notin> set (dict_get spec_allowed_values ''frame'' [])
   \<and> communication_frame (snd (calculate_ipe_score unlisted_ratings 0)) = 0
   \<and> unlisted_ratings ''complexity'' = Some 9
   \<and> 9 \<notin> set (dict_get spec_allowed_values ''complexity'' [])
   \<and> innovation_complexity (snd (calculate_ipe_score unlisted_ratings 0)) = 0
   \<and> unlisted_ratings ''teams'' = Some 9
   \<and> 9 \<notin> set (dict_get spec_allowed_values ''teams'' [])
   \<and> knowledge_teams (snd (calculate_ipe_score unlisted_ratings 0)) = 0
   \<and> unlisted_ratings ''breadth'' = Some 9
   \<and> 9 \<notin> set (dict_get spec_allowed_values ''breadth'' [])
   \<and> breadth_pts (snd (calculate_ipe_score unlisted_ratings 0)) = 0"
proof -
  have h1: "(Map.empty :: ratings) ''impact'' = None" by simp
  have h2: "([''impact'' \<mapsto> 5/2] :: ratings) ''impact'' = Some (5/2)" by simp
  from malformed_vector_not_rejected [of Map.empty "''impact''" 7] h1
  have a: "calculate_ipe_score Map.empty 7 = calculate_ipe_score [''impact'' \<mapsto> 1] 7" by blast
  from malformed_vector_not_rejected [of "[''impact'' \<mapsto> 5/2]" "''impact''" 7 "5/2"] h2
  have b: "calculate_ipe_score [''impact'' \<mapsto> 5/2] 7
        = calculate_ipe_score ([''impact'' \<mapsto> 5/2](''impact'' \<mapsto> of_int (py_int (5/2)))) 7"
    by blast
  note at_unlisted = malformed_vector_not_rejected [of unlisted_ratings _ 0 _ 9 9 9 9 9]
  from at_unlisted unlisted_values nine_not_allowed
  have c: "intermediate_value (snd (calculate_ipe_score unlisted_ratings 0)) = 1"
    and d: "communication_frame (snd (calculate_ipe_score unlisted_ratings 0)) = 0"
    and e: "innovation_complexity (snd (calculate_ipe_score unlisted_ratings 0)) = 0"
    and f: "knowledge_teams (snd (calculate_ipe_score unlisted_ratings 0)) = 0"
    and g: "breadth_pts (snd (calculate_ipe_score unlisted_ratings 0)) = 0"
    by blast+
  from h1 h2 a b c d e f g unlisted_values nine_not_allowed show ?thesis by (intro conjI)
qed

subsection \<open>Lookup keys\<close>

text \<open>
  C8. In the Impact x Contribution, Communication x Frame, Innovation x Complexity and
  Knowledge x Teams tables the engine selects the row whose key is the integer part
  (truncation, not rounding) of the first rating and, in that row, the column whose key is
  the second rating as it is: the entry found there is the component. In the Impact x Size
  table it selects the row whose key is the intermediate value found in the
  Impact x Contribution table and the column whose key is the integer part of the size.
  Tables and rows are read with \<open>map_of\<close> and the ratings from the dictionary itself.
\<close>

theorem lookup_selects_row_and_column:
  "(r ''impact'' = Some i \<and> r ''contribution'' = Some c \<and> spec_integer_part i k
      \<and> map_of IMPACT_CONTRIBUTION_TABLE (of_int k) = Some ic_row \<and> map_of ic_row c = Some iv
    \<longrightarrow> intermediate_value (snd (calculate_ipe_score r s)) = iv
        \<and> (spec_integer_part s j \<and> map_of IMPACT_SIZE_TABLE iv = Some is_row
             \<and> map_of is_row (of_int j) = Some p
           \<longrightarrow> impact_contribution_size (snd (calculate_ipe_score r s)) = p))
   \<and> (r ''communication'' = Some m \<and> r ''frame'' = Some f \<and> spec_integer_part m km
      \<and> map_of COMMUNICATION_FRAME_TABLE (of_int km) = Some cf_row \<and> map_of cf_row f = Some cf_p
    \<longrightarrow> communication_frame (snd (calculate_ipe_score r s)) = cf_p)
   \<and> (r ''innovation'' = Some n \<and> r ''complexity'' = Some x \<and> spec_integer_part n kn
      \<and> map_of INNOVATION_COMPLEXITY_TABLE (of_int kn) = Some ix_row \<and> map_of ix_row x = Some ix_p
    \<longrightarrow> innovation_complexity (snd (calculate_ipe_score r s)) = ix_p)
   \<and> (r ''knowledge'' = Some w \<and> r ''teams'' = Some t \<and> spec_integer_part w kw
      \<and> map_of KNOWLEDGE_TEAMS_TABLE (of_int kw) = Some kt_row \<and> map_of kt_row t = Some kt_p
    \<longrightarrow> knowledge_teams (snd (calculate_ipe_score r s)) = kt_p)"
proof (intro conjI impI; (elim conjE)?)
  assume "r ''impact'' = Some i" "r ''contribution'' = Some c" "spec_integer_part i k"
    "map_of IMPACT_CONTRIBUTION_TABLE (of_int k) = Some ic_row" "map_of ic_row c = Some iv"
  then show iv: "intermediate_value (snd (calculate_ipe_score r s)) = iv"
    by (simp add: calc_intermediate ratings_get_def py_int_unique dict_get_present)
  assume "spec_integer_part s j" "map_of IMPACT_SIZE_TABLE iv = Some is_row"
    "map_of is_row (of_int j) = Some p"
  then have "dict_get (dict_get IMPACT_SIZE_TABLE iv []) (of_int (py_int s)) 0 = p"
    by (simp add: py_int_unique dict_get_present)
  with iv show "impact_contribution_size (snd (calculate_ipe_score r s)) = p"
    by (simp add: calc_impact_contribution_size calc_intermediate)
next
  assume "r ''communication'' = Some m" "r ''frame'' = Some f" "spec_integer_part m km"
    "map_of COMMUNICATION_FRAME_TABLE (of_int km) = Some cf_row" "map_of cf_row f = Some cf_p"
  then show "communication_frame (snd (calculate_ipe_score r s)) = cf_p"
    by (simp add: calc_communication_frame ratings_get_def py_int_unique dict_get_present)
next
  assume "r ''innovation'' = Some n" "r ''complexity'' = Some x" "spec_integer_part n kn"
    "map_of INNOVATION_COMPLEXITY_TABLE (of_int kn) = Some ix_row" "map_of ix_row x = Some ix_p"
  then show "innovation_complexity (snd (calculate_ipe_score r s)) = ix_p"
    by (simp add: calc_innovation_complexity ratings_get_def py_int_unique dict_get_present)
next
  assume "r ''knowledge'' = Some w" "r ''teams'' = Some t" "spec_integer_part w kw"
    "map_of KNOWLEDGE_TEAMS_TABLE (of_int kw) = Some kt_row" "map_of kt_row t = Some kt_p"
  then show "knowledge_teams (snd (calculate_ipe_score r s)) = kt_p"
    by (simp add: calc_knowledge_teams ratings_get_def py_int_unique dict_get_present)
qed

theorem lookup_selects_row_and_column_witness:
  "half_step_ratings ''impact'' = Some 4 \<and> half_step_ratings ''contribution'' = Some 4
   \<and> spec_integer_part 4 4
   \<and> map_of IMPACT_CONTRIBUTION_TABLE (of_int 4) = Some (dict_get IMPACT_CONTRIBUTION_TABLE 4 [])
   \<and> map_of (dict_get IMPACT_CONTRIBUTION_TABLE 4 []) 4 = Some 13
   \<and> spec_integer_part (17/2) 8
   \<and> map_of IMPACT_SIZE_TABLE 13 = Some (dict_get IMPACT_SIZE_TABLE 13 [])
   \<and> map_of (dict_get IMPACT_SIZE_TABLE 13 []) (of_int 8) = Some 198
   \<and> half_step_ratings ''communication'' = Some (7/2) \<and> half_step_ratings ''frame'' = Some 3
   \<and> spec_integer_part (7/2) 3
   \<and> map_of COMMUNICATION_FRAME_TABLE (of_int 3) = Some (dict_get COMMUNICATION_FRAME_TABLE 3 [])
   \<and> map_of (dict_get COMMUNICATION_FRAME_TABLE 3 []) 3 = Some 50
   \<and> half_step_ratings ''innovation'' = Some (9/2) \<and> half_step_ratings ''complexity'' = Some 3
   \<and> spec_integer_part (9/2) 4
   \<and> map_of INNOVATION_COMPLEXITY_TABLE (of_int 4) = Some (dict_get INNOVATION_COMPLEXITY_TABLE 4 [])
   \<and> map_of (dict_get INNOVATION_COMPLEXITY_TABLE 4 []) 3 = Some 55
   \<and> half_step_ratings ''knowledge'' = Some (15/2) \<and> half_step_ratings ''teams'' = Some (5/2)
   \<and> spec_integer_part (15/2) 7
   \<and> map_of KNOWLEDGE_TEAMS_TABLE (of_int 7) = Some (dict_get KNOWLEDGE_TEAMS_TABLE 7 [])
   \<and> map_of (dict_get KNOWLEDGE_TEAMS_TABLE 7 []) (5/2) = Some 161
   \<and> intermediate_value (snd (calculate_ipe_score half_step_ratings (17/2))) = 13
   \<and> impact_contribution_size (snd (calculate_ipe_score half_step_ratings (17/2))) = 198
   \<and> communication_frame (snd (calculate_ipe_score half_step_ratings (17/2))) = 50
   \<and> innovation_complexity (snd (calculate_ipe_score half_step_ratings (17/2))) = 55
   \<and> knowledge_teams (snd (calculate_ipe_score half_step_ratings (17/2))) = 161"
proof -
  have r: "half_step_ratings ''impact'' = Some 4" "half_step_ratings ''contribution'' = Some 4"
    "half_step_ratings ''communication'' = Some (7/2)" "half_step_ratings ''frame'' = Some 3"
    "half_step_ratings ''innovation'' = Some (9/2)" "half_step_ratings ''complexity'' = Some 3"
    "half_step_ratings ''knowledge'' = Some (15/2)" "half_step_ratings ''teams'' = Some (5/2)"
    by (simp_all add: half_step_ratings_def)
  have t: "spec_integer_part 4 4" "spec_integer_part (17/2) 8" "spec_integer_part (7/2) 3"
    "spec_integer_part (9/2) 4" "spec_integer_part (15/2) 7"
    by (simp_all add: spec_integer_part_def)
  have ic: "map_of IMPACT_CONTRIBUTION_TABLE (of_int 4) = Some (dict_get IMPACT_CONTRIBUTION_TABLE 4 [])"
    "map_of (dict_get IMPACT_CONTRIBUTION_TABLE 4 []) 4 = Some 13"
    by code_simp+
  have sz: "map_of IMPACT_SIZE_TABLE 13 = Some (dict_get IMPACT_SIZE_TABLE 13 [])"
    "map_of (dict_get IMPACT_SIZE_TABLE 13 []) (of_int 8) = Some 198"
    by code_simp+
  have cf: "map_of COMMUNICATION_FRAME_TABLE (of_int 3) = Some (dict_get COMMUNICATION_FRAME_TABLE 3 [])"
    "map_of (dict_get COMMUNICATION_FRAME_TABLE 3 []) 3 = Some 50"
    by code_simp+
  have ix: "map_of INNOVATION_COMPLEXITY_TABLE (of_int 4) = Some (dict_get INNOVATION_COMPLEXITY_TABLE 4 [])"
    "map_of (dict_get INNOVATION_COMPLEXITY_TABLE 4 []) 3 = Some 55"
    by code_simp+
  have kt: "map_of KNOWLEDGE_TEAMS_TABLE (of_int 7) = Some (dict_get KNOWLEDGE_TEAMS_TABLE 7 [])"
    "map_of (dict_get KNOWLEDGE_TEAMS_TABLE 7 []) (5/2) = Some 161"
    by code_simp+
  note at_input = lookup_selects_row_and_column [of half_step_ratings _ _ _ _ _ "17/2"]
  from at_input [of 4 4 4 "dict_get IMPACT_CONTRIBUTION_TABLE 4 []" 13] r t ic
  have a: "intermediate_value (snd (calculate_ipe_score half_step_ratings (17/2))) = 13" by blast
  from at_input [of 4 4 4 "dict_get IMPACT_CONTRIBUTION_TABLE 4 []" 13 8 "dict_get IMPACT_SIZE_TABLE 13 []" 198] r t ic sz
  have b: "impact_contribution_size (snd (calculate_ipe_score half_step_ratings (17/2))) = 198" by blast
  from at_input [of _ _ _ _ _ _ _ _ "7/2" 3 3 "dict_get COMMUNICATION_FRAME_TABLE 3 []" 50] r t cf
  have c: "communication_frame (snd (calculate_ipe_score half_step_ratings (17/2))) = 50" by blast
  from at_input [of _ _ _ _ _ _ _ _ _ _ _ _ _ "9/2" 3 4 "dict_get INNOVATION_COMPLEXITY_TABLE 4 []" 55] r t ix
  have d: "innovation_complexity (snd (calculate_ipe_score half_step_ratings (17/2))) = 55" by blast
  from at_input [of _ _ _ _ _ _ _ _ _ _ _ _ _ _ _ _ _ _ "15/2" "5/2" 7 "dict_get KNOWLEDGE_TEAMS_TABLE 7 []" 161] r t kt
  have e: "knowledge_teams (snd (calculate_ipe_score half_step_ratings (17/2))) = 161" by blast
  from r t ic sz cf ix kt a b c d e show ?thesis by (intro conjI)
qed

subsection \<open>Monotonicity of the components\<close>

text \<open>
  C7. Take a valid ratings vector, any size factor and any one of the nine dimensions, and
  raise the rating of that dimension to the next value of its allowed set, all else
  unchanged. The component that the dimension feeds does not decrease: the
  Impact x Contribution x Size points for Impact and Contribution, the
  Communication x Frame points, the Innovation x Complexity points, the Knowledge x Teams
  points, and the Breadth points.
\<close>

theorem step_up_never_decreases:
  assumes valid: "valid_ratings r" and dim: "d \<in> set dimensions" and rd: "r d = Some v"
    and step: "next_step (dict_get spec_allowed_values d []) v = Some v'"
  shows "component_of d (snd (calculate_ipe_score r s))
           \<le> component_of d (snd (calculate_ipe_score (r(d \<mapsto> v')) s))"
proof -
  note gets = ratings_get_upd_same ratings_get_upd_other ratings_get_Some
  from step have z: "(v, v') \<in> set (zip (dict_get spec_allowed_values d [])
      (tl (dict_get spec_allowed_values d [])))"
    by (rule next_step_zip)
  from dim have "d = ''impact'' \<or> d = ''contribution'' \<or> d = ''communication''
    \<or> d = ''frame'' \<or> d = ''innovation'' \<or> d = ''complexity'' \<or> d = ''knowledge''
    \<or> d = ''teams'' \<or> d = ''breadth''"
    by (simp add: dimensions_def)
  then show ?thesis
  proof (elim disjE)
    assume d: "d = ''impact''"
    from valid have y: "ratings_get r ''contribution'' 1 \<in> set (dict_get spec_allowed_values ''contribution'' [])"
      by (rule valid_get) (simp add: dimensions_def)
    from bspec [OF bspec [OF ics_impact_steps z [unfolded d]] y]
    have "rows_le (dict_get IMPACT_SIZE_TABLE
                (dict_get (dict_get IMPACT_CONTRIBUTION_TABLE (of_int (py_int v)) [])
                   (ratings_get r ''contribution'' 1) 1) [])
             (dict_get IMPACT_SIZE_TABLE
                (dict_get (dict_get IMPACT_CONTRIBUTION_TABLE (of_int (py_int v')) [])
                   (ratings_get r ''contribution'' 1) 1) [])"
      by simp
    from rows_le_get [OF this, of "of_int (py_int s)"] rd d show ?thesis
      by (simp add: component_of_def calc_impact_contribution_size gets)
  next
    assume d: "d = ''contribution''"
    from valid have y: "ratings_get r ''impact'' 1 \<in> set (dict_get spec_allowed_values ''impact'' [])"
      by (rule valid_get) (simp add: dimensions_def)
    from bspec [OF bspec [OF ics_contribution_steps z [unfolded d]] y]
    have "rows_le (dict_get IMPACT_SIZE_TABLE
                (dict_get (dict_get IMPACT_CONTRIBUTION_TABLE (of_int (py_int (ratings_get r ''impact'' 1))) [])
                   v 1) [])
             (dict_get IMPACT_SIZE_TABLE
                (dict_get (dict_get IMPACT_CONTRIBUTION_TABLE (of_int (py_int (ratings_get r ''impact'' 1))) [])
                   v' 1) [])"
      by simp
    from rows_le_get [OF this, of "of_int (py_int s)"] rd d show ?thesis
      by (simp add: component_of_def calc_impact_contribution_size gets)
  next
    assume d: "d = ''communication''"
    from valid have y: "ratings_get r ''frame'' 1 \<in> set (dict_get spec_allowed_values ''frame'' [])"
      by (rule valid_get) (simp add: dimensions_def)
    from bspec [OF bspec [OF cf_communication_steps z [unfolded d]] y] rd d show ?thesis
      by (simp add: component_of_def calc_communication_frame gets)
  next
    assume d: "d = ''frame''"
    from valid have y: "ratings_get r ''communication'' 1 \<in> set (dict_get spec_allowed_values ''communication'' [])"
      by (rule valid_get) (simp add: dimensions_def)
    from bspec [OF bspec [OF cf_frame_steps z [unfolded d]] y] rd d show ?thesis
      by (simp add: component_of_def calc_communication_frame gets)
  next
    assume d: "d = ''innovation''"
    from valid have y: "ratings_get r ''complexity'' 1 \<in> set (dict_get spec_allowed_values ''complexity'' [])"
      by (rule valid_get) (simp add: dimensions_def)
    from bspec [OF bspec [OF ix_innovation_steps z [unfolded d]] y] rd d show ?thesis
      by (simp add: component_of_def calc_innovation_complexity gets)
  next
    assume d: "d = ''complexity''"
    from valid have y: "ratings_get r ''innovation'' 1 \<in> set (dict_get spec_allowed_values ''innovation'' [])"
      by (rule valid_get) (simp add: dimensions_def)
    from bspec [OF bspec [OF ix_complexity_steps z [unfolded d]] y] rd d show ?thesis
      by (simp add: component_of_def calc_innovation_complexity gets)
  next
    assume d: "d = ''knowledge''"
    from valid have y: "ratings_get r ''teams'' 1 \<in> set (dict_get spec_allowed_values ''teams'' [])"
      by (rule valid_get) (simp add: dimensions_def)
    from bspec [OF bspec [OF kt_knowledge_steps z [unfolded d]] y] rd d show ?thesis
      by (simp add: component_of_def calc_knowledge_teams gets)
  next
    assume d: "d = ''teams''"
    from valid have y: "ratings_get r ''knowledge'' 1 \<in> set (dict_get spec_allowed_values ''knowledge'' [])"
      by (rule valid_get) (simp add: dimensions_def)
    from bspec [OF bspec [OF kt_teams_steps z [unfolded d]] y] rd d show ?thesis
      by (simp add: component_of_def calc_knowledge_teams gets)
  next
    assume d: "d = ''breadth''"
    from bspec [OF breadth_steps z [unfolded d]] rd d show ?thesis
      by (simp add: component_of_def calc_breadth gets)
  qed
qed

theorem step_up_never_decreases_witness:
  "valid_ratings scenario_ratings \<and> ''impact'' \<in> set dimensions
   \<and> scenario_ratings ''impact'' = Some 4
   \<and> next_step (dict_get spec_allowed_values ''impact'' []) 4 = Some 5
   \<and> component_of ''impact'' (snd (calculate_ipe_score scenario_ratings 8)) = 198
   \<and> component_of ''impact'' (snd (calculate_ipe_score (scenario_ratings(''impact'' \<mapsto> 5)) 8)) = 252
   \<and> component_of ''impact'' (snd (calculate_ipe_score scenario_ratings 8))
        \<le> component_of ''impact'' (snd (calculate_ipe_score (scenario_ratings(''impact'' \<mapsto> 5)) 8))"
proof -
  have h1: "valid_ratings scenario_ratings" by (rule scenario_valid)
  have h2: "''impact'' \<in> set dimensions" by (simp add: dimensions_def)
  have h3: "scenario_ratings ''impact'' = Some 4" by (simp add: scenario_ratings_def)
  have h4: "next_step (dict_get spec_allowed_values ''impact'' []) 4 = Some 5"
    by (simp add: spec_allowed_values_def)
  have a: "component_of ''impact'' (snd (calculate_ipe_score scenario_ratings 8)) = 198"
    by (simp add: scenario_result component_of_def)
  have b: "component_of ''impact'' (snd (calculate_ipe_score (scenario_ratings(''impact'' \<mapsto> 5)) 8)) = 252"
    by (simp add: scenario_impact_5_result component_of_def)
  from step_up_never_decreases [OF h1 h2 h3 h4, of 8] h1 h2 h3 h4 a b
  show ?thesis by (intro conjI)
qed

end
